theory Spec2Isabelle
  imports Main "HOL-Library.Word"
begin

section \<open>Exceptions and results\<close>

text \<open>
  The functions of \<^verbatim>\<open>Modules/_threadmodule.c\<close> report a failure by setting a Python
  exception (\<^verbatim>\<open>PyErr_SetString(type, message)\<close>) and returning \<^verbatim>\<open>NULL\<close> or \<^verbatim>\<open>-1\<close>.
  The model returns the exception as a value: \<open>Inl (type, message)\<close>. A normal return is
  \<open>Inr v\<close>. Every function that mutates \<^verbatim>\<open>self\<close> returns the new object next to the result.
\<close>

datatype PyExc =
    PyExc_ValueError
  | PyExc_RuntimeError
  | PyExc_OverflowError
  | PyExc_TypeError
  | Pending_exception

type_synonym error = "PyExc \<times> string"

text \<open>\<^verbatim>\<open>#define ThreadError PyExc_RuntimeError\<close> (line 22).\<close>

abbreviation ThreadError :: PyExc where
  "ThreadError \<equiv> PyExc_RuntimeError"

text \<open>\<^verbatim>\<open>PyThread_ident_t\<close> is \<^verbatim>\<open>unsigned long long\<close>; \<^verbatim>\<open>PyThread_handle_t\<close> is an opaque
  word-sized handle.\<close>

type_synonym PyThread_ident_t = "64 word"
type_synonym PyThread_handle_t = "64 word"

section \<open>Thread handles\<close>

text \<open>
  \<^verbatim>\<open>ThreadHandleObject\<close> (lines 47-53). The \<^verbatim>\<open>char joinable\<close> only ever holds 0 or 1
  (lines 64, 113, 140, 164, 1445) and is only tested for truth, so it is a \<open>bool\<close>. The
  intrusive list node is modelled by membership in the registry list below.
\<close>

record ThreadHandleObject =
  ident :: PyThread_ident_t
  handle :: PyThread_handle_t
  joinable :: bool

text \<open>
  \<^verbatim>\<open>ThreadHandle_detach\<close> (lines 132-148). \<open>ret\<close> is the value returned by the OS primitive
  \<^verbatim>\<open>PyThread_detach_thread(self->handle)\<close>, which is only consulted after the flag is cleared.
\<close>

definition ThreadHandle_detach :: "int \<Rightarrow> ThreadHandleObject \<Rightarrow> (error + unit) \<times> ThreadHandleObject" where
  "ThreadHandle_detach ret self =
     (if \<not> joinable self then
        (Inl (PyExc_ValueError, ''the thread is not joinable and thus cannot be detached''), self)
      else
        let self' = self\<lparr>joinable := False\<rparr> in
        if ret \<noteq> 0 then (Inl (ThreadError, ''Failed detaching thread''), self')
        else (Inr (), self'))"

text \<open>
  \<^verbatim>\<open>ThreadHandle_join\<close> (lines 150-174), in two parts. \<open>ThreadHandle_join_enter\<close> is the code
  up to \<^verbatim>\<open>Py_BEGIN_ALLOW_THREADS\<close> (lines 153-164): it either raises, or yields the object as
  it is while the caller is blocked in \<^verbatim>\<open>PyThread_join_thread\<close>. \<open>tid\<close> is the value of
  \<^verbatim>\<open>PyThread_get_thread_ident_ex()\<close>, the identity of the calling thread; \<open>ret\<close> is the value
  returned by \<^verbatim>\<open>PyThread_join_thread(self->handle)\<close>.
\<close>

definition ThreadHandle_join_enter :: "PyThread_ident_t \<Rightarrow> ThreadHandleObject \<Rightarrow> error + ThreadHandleObject" where
  "ThreadHandle_join_enter tid self =
     (if \<not> joinable self then Inl (PyExc_ValueError, ''the thread is not joinable'')
      else if ident self = tid then Inl (ThreadError, ''Cannot join current thread'')
      else Inr (self\<lparr>joinable := False\<rparr>))"

definition ThreadHandle_join :: "PyThread_ident_t \<Rightarrow> int \<Rightarrow> ThreadHandleObject \<Rightarrow> (error + unit) \<times> ThreadHandleObject" where
  "ThreadHandle_join tid ret self =
     (case ThreadHandle_join_enter tid self of
        Inl e \<Rightarrow> (Inl e, self)
      | Inr self' \<Rightarrow>
          if ret \<noteq> 0 then (Inl (ThreadError, ''Failed joining thread''), self')
          else (Inr (), self'))"

subsection \<open>The registry of handles and fork recovery\<close>

text \<open>
  Handles are heap objects; \<^verbatim>\<open>_PyRuntime.threads.handles\<close> links them in an intrusive list.
  The model keeps the objects in a store indexed by address and the list as the sequence of
  the addresses of its nodes. A node is linked into at most one place, so the addresses of a
  list are distinct.
\<close>

type_synonym addr = nat
type_synonym heap = "addr \<Rightarrow> ThreadHandleObject"

record pythread_runtime_state =
  handles :: "addr list"

text \<open>Modelled from the spec: \<^verbatim>\<open>llist_remove\<close> of \<^verbatim>\<open>pycore_llist.h\<close>, which is defined outside
  this module; it unlinks the given node from the list that holds it ("removed from the
  registry").\<close>

definition llist_remove :: "addr \<Rightarrow> addr list \<Rightarrow> addr list" where
  "llist_remove node xs = remove1 node xs"

text \<open>
  \<^verbatim>\<open>_PyThread_AfterFork\<close> (lines 96-116). \<^verbatim>\<open>llist_for_each_safe\<close> reads the successor of a
  node before running the body, so the walk visits every node that was linked when it
  started, whatever the body unlinks. \<open>AfterFork_walk\<close> is the loop over the nodes still to
  visit; \<open>current\<close> is the value of \<^verbatim>\<open>PyThread_get_thread_ident_ex()\<close>.
\<close>

fun AfterFork_walk :: "PyThread_ident_t \<Rightarrow> addr list \<Rightarrow> heap \<times> pythread_runtime_state \<Rightarrow> heap \<times> pythread_runtime_state" where
  "AfterFork_walk current [] (hp, state) = (hp, state)"
| "AfterFork_walk current (node # rest) (hp, state) =
     (if ident (hp node) = current then AfterFork_walk current rest (hp, state)
      else AfterFork_walk current rest
             (hp(node := (hp node)\<lparr>joinable := False\<rparr>),
              state\<lparr>handles := llist_remove node (handles state)\<rparr>))"

definition PyThread_AfterFork :: "PyThread_ident_t \<Rightarrow> heap \<times> pythread_runtime_state \<Rightarrow> heap \<times> pythread_runtime_state" where
  "PyThread_AfterFork current hs = AfterFork_walk current (handles (snd hs)) hs"

section \<open>The OS mutex\<close>

text \<open>
  A \<^verbatim>\<open>PyThread_type_lock\<close> is an OS mutex. The model keeps whether it is held, and a
  history of the primitive calls made on it, so that "the mutex was not touched" can be
  told from "it was tried and left as it was".
\<close>

datatype lock_call = Call_acquire | Call_release

record PyThread_type_lock =
  held :: bool
  history :: "lock_call list"

datatype PyLockStatus = PY_LOCK_FAILURE | PY_LOCK_ACQUIRED | PY_LOCK_INTR

text \<open>Modelled from the spec: \<^verbatim>\<open>PyThread_release_lock\<close> of the portable thread library, which
  is defined outside this module; it releases the mutex.\<close>

definition PyThread_release_lock :: "PyThread_type_lock \<Rightarrow> PyThread_type_lock" where
  "PyThread_release_lock m = m\<lparr>held := False, history := history m @ [Call_release]\<rparr>"

text \<open>Modelled from the spec: \<^verbatim>\<open>PyThread_acquire_lock(lock, waitflag)\<close> of the portable
  thread library, which is defined outside this module. A free mutex is taken at once
  (result 1). A held mutex makes a call with \<^verbatim>\<open>waitflag = 0\<close> fail (result 0); with a
  non-zero \<^verbatim>\<open>waitflag\<close> the caller waits, and \<open>w\<close> tells how the wait ends: \<open>True\<close> when
  the holder released the mutex and the caller took it, \<open>False\<close> when "the underlying mutex
  cannot be acquired at all".\<close>

definition PyThread_acquire_lock :: "bool \<Rightarrow> PyThread_type_lock \<Rightarrow> int \<Rightarrow> int \<times> PyThread_type_lock" where
  "PyThread_acquire_lock w m waitflag =
     (let m' = m\<lparr>history := history m @ [Call_acquire]\<rparr> in
      if \<not> held m then (1, m'\<lparr>held := True\<rparr>)
      else if waitflag = 0 then (0, m')
      else if w then (1, m') else (0, m'))"

text \<open>Modelled from the spec: \<^verbatim>\<open>PyThread_acquire_lock_timed_with_retries\<close>, which is defined
  outside this module. A free mutex is acquired at once; a held mutex makes a call with
  timeout 0 (non-blocking) miss; otherwise the caller waits, and \<open>w\<close> tells how the wait
  ends: the lock was acquired after its holder released it, the timeout expired
  (\<open>PY_LOCK_FAILURE\<close>), or an interrupt arrived (\<open>PY_LOCK_INTR\<close>).\<close>

definition PyThread_acquire_lock_timed_with_retries ::
    "PyLockStatus \<Rightarrow> PyThread_type_lock \<Rightarrow> int \<Rightarrow> PyLockStatus \<times> PyThread_type_lock" where
  "PyThread_acquire_lock_timed_with_retries w m timeout =
     (let m' = m\<lparr>history := history m @ [Call_acquire]\<rparr> in
      if \<not> held m then (PY_LOCK_ACQUIRED, m'\<lparr>held := True\<rparr>)
      else if timeout = 0 then (PY_LOCK_FAILURE, m')
      else (w, m'))"

text \<open>\<^verbatim>\<open>acquire_timed\<close> (lines 238-242).\<close>

definition acquire_timed :: "PyLockStatus \<Rightarrow> PyThread_type_lock \<Rightarrow> int \<Rightarrow> PyLockStatus \<times> PyThread_type_lock" where
  "acquire_timed w lock timeout = PyThread_acquire_lock_timed_with_retries w lock timeout"

section \<open>Parsing the arguments of acquire\<close>

text \<open>
  \<^verbatim>\<open>PyTime_t\<close> is a signed 64-bit count of nanoseconds. The parser only compares such
  values, so they are integers here; the values it sees come out of the conversions below.
\<close>

type_synonym PyTime_t = int

text \<open>Modelled from the spec: \<^verbatim>\<open>_PyTime_FromSeconds\<close> of \<^verbatim>\<open>pycore_time.h\<close>, which is defined
  outside this module; a number of seconds as a \<^verbatim>\<open>PyTime_t\<close>. The "unset" timeout of the
  spec is the value of \<^verbatim>\<open>_PyTime_FromSeconds(-1)\<close>.\<close>

definition PyTime_FromSeconds :: "int \<Rightarrow> PyTime_t" where
  "PyTime_FromSeconds seconds = seconds * 1000000000"

text \<open>Modelled from the spec: \<^verbatim>\<open>_PyTime_AsMicroseconds(t, _PyTime_ROUND_TIMEOUT)\<close> of
  \<^verbatim>\<open>pycore_time.h\<close>, which is defined outside this module; the timeout in microseconds,
  rounded away from zero.\<close>

definition PyTime_AsMicroseconds :: "PyTime_t \<Rightarrow> int" where
  "PyTime_AsMicroseconds t = (if 0 \<le> t then (t + 999) div 1000 else - ((- t + 999) div 1000))"

text \<open>
  The arguments of \<^verbatim>\<open>acquire(blocking=True, timeout=-1)\<close> as the parser meets them.
  \<open>Bad_args e\<close>: \<^verbatim>\<open>PyArg_ParseTupleAndKeywords\<close> rejects the call with exception \<open>e\<close>.
  Otherwise the call gives \<open>blocking\<close> (format \<^verbatim>\<open>p\<close>, a truth value) and possibly a
  timeout object, on which \<^verbatim>\<open>_PyTime_FromSecondsObject\<close> either yields a \<^verbatim>\<open>PyTime_t\<close>
  (\<open>Converts t\<close>) or fails with an exception (\<open>Conversion_fails e\<close>).
\<close>

datatype timeout_obj = Converts PyTime_t | Conversion_fails error

datatype acquire_args = Bad_args error | Acquire_args bool "timeout_obj option"

text \<open>
  \<^verbatim>\<open>lock_acquire_parse_args\<close> (lines 244-288). The result \<open>Inr timeout\<close> is the return value 0
  with \<^verbatim>\<open>*timeout\<close> set. \<open>tmax\<close> is the platform constant \<^verbatim>\<open>PY_TIMEOUT_MAX\<close>.
\<close>

definition lock_acquire_parse_args :: "int \<Rightarrow> acquire_args \<Rightarrow> error + PyTime_t" where
  "lock_acquire_parse_args tmax args =
     (case args of
        Bad_args e \<Rightarrow> Inl e
      | Acquire_args blocking tobj \<Rightarrow>
          let unset_timeout = PyTime_FromSeconds (- 1) in
          (case tobj of
             Some (Conversion_fails e) \<Rightarrow> Inl e
           | _ \<Rightarrow>
               let timeout = (case tobj of Some (Converts t) \<Rightarrow> t | _ \<Rightarrow> unset_timeout) in
               if \<not> blocking \<and> timeout \<noteq> unset_timeout then
                 Inl (PyExc_ValueError, ''can't specify a timeout for a non-blocking call'')
               else if timeout < 0 \<and> timeout \<noteq> unset_timeout then
                 Inl (PyExc_ValueError, ''timeout value must be a non-negative number'')
               else if \<not> blocking then Inr 0
               else if timeout \<noteq> unset_timeout \<and> PyTime_AsMicroseconds timeout > tmax then
                 Inl (PyExc_OverflowError, ''timeout value is too large'')
               else Inr timeout))"

section \<open>Lock objects\<close>

text \<open>\<^verbatim>\<open>lockobject\<close> (lines 206-211); \<^verbatim>\<open>char locked\<close> holds 0 or 1. The weak reference list
  plays no part in the operations below.\<close>

record lockobject =
  lock_lock :: PyThread_type_lock
  locked :: bool

text \<open>\<^verbatim>\<open>lock_PyThread_acquire_lock\<close> (lines 290-305). On \<open>PY_LOCK_INTR\<close> the function returns
  \<^verbatim>\<open>NULL\<close> with the exception that the signal handler left pending.\<close>

definition lock_PyThread_acquire_lock ::
    "int \<Rightarrow> PyLockStatus \<Rightarrow> acquire_args \<Rightarrow> lockobject \<Rightarrow> (error + bool) \<times> lockobject" where
  "lock_PyThread_acquire_lock tmax w args self =
     (case lock_acquire_parse_args tmax args of
        Inl e \<Rightarrow> (Inl e, self)
      | Inr timeout \<Rightarrow>
          let (r, m) = acquire_timed w (lock_lock self) timeout;
              self1 = self\<lparr>lock_lock := m\<rparr>
          in if r = PY_LOCK_INTR then (Inl (Pending_exception, []), self1)
             else if r = PY_LOCK_ACQUIRED then (Inr True, self1\<lparr>locked := True\<rparr>)
             else (Inr False, self1))"

text \<open>\<^verbatim>\<open>lock_PyThread_release_lock\<close> (lines 318-330).\<close>

definition lock_PyThread_release_lock :: "lockobject \<Rightarrow> (error + unit) \<times> lockobject" where
  "lock_PyThread_release_lock self =
     (if \<not> locked self then (Inl (ThreadError, ''release unlocked lock''), self)
      else (Inr (), self\<lparr>lock_lock := PyThread_release_lock (lock_lock self), locked := False\<rparr>))"

section \<open>Recursive lock objects\<close>

text \<open>
  \<^verbatim>\<open>rlockobject\<close> (lines 458-464). \<^verbatim>\<open>rlock_count\<close> is an \<^verbatim>\<open>unsigned long\<close>, whose width
  depends on the platform: the type parameter \<open>'w\<close> is that width, and arithmetic on the
  count wraps around modulo \<open>2 ^ LENGTH('w)\<close>.
\<close>

record (overloaded) ('w::len) rlockobject =
  rlock_lock :: PyThread_type_lock
  rlock_owner :: PyThread_ident_t
  rlock_count :: "'w word"

text \<open>\<^verbatim>\<open>rlock_is_owned_by\<close> (lines 494-500).\<close>

definition rlock_is_owned_by :: "('w::len) rlockobject \<Rightarrow> PyThread_ident_t \<Rightarrow> bool" where
  "rlock_is_owned_by self tid = (rlock_owner self = tid \<and> rlock_count self > 0)"

text \<open>
  \<^verbatim>\<open>rlock_acquire\<close> (lines 502-534). \<open>tid\<close> is the value of \<^verbatim>\<open>PyThread_get_thread_ident_ex()\<close>.
  The \<^verbatim>\<open>assert\<close> of line 525 is compiled out of a release build and is not a branch.
\<close>

definition rlock_acquire ::
    "int \<Rightarrow> PyLockStatus \<Rightarrow> PyThread_ident_t \<Rightarrow> acquire_args \<Rightarrow> ('w::len) rlockobject
       \<Rightarrow> (error + bool) \<times> 'w rlockobject" where
  "rlock_acquire tmax w tid args self =
     (case lock_acquire_parse_args tmax args of
        Inl e \<Rightarrow> (Inl e, self)
      | Inr timeout \<Rightarrow>
          if rlock_is_owned_by self tid then
            let count = rlock_count self + 1 in
            if count \<le> rlock_count self then
              (Inl (PyExc_OverflowError, ''Internal lock count overflowed''), self)
            else (Inr True, self\<lparr>rlock_count := count\<rparr>)
          else
            let (r, m) = acquire_timed w (rlock_lock self) timeout;
                self1 = self\<lparr>rlock_lock := m\<rparr>
            in if r = PY_LOCK_ACQUIRED then (Inr True, self1\<lparr>rlock_owner := tid, rlock_count := 1\<rparr>)
               else if r = PY_LOCK_INTR then (Inl (Pending_exception, []), self1)
               else (Inr False, self1))"

text \<open>\<^verbatim>\<open>rlock_release\<close> (lines 552-567).\<close>

definition rlock_release :: "PyThread_ident_t \<Rightarrow> ('w::len) rlockobject \<Rightarrow> (error + unit) \<times> 'w rlockobject" where
  "rlock_release tid self =
     (if \<not> rlock_is_owned_by self tid then
        (Inl (PyExc_RuntimeError, ''cannot release un-acquired lock''), self)
      else
        let self1 = self\<lparr>rlock_count := rlock_count self - 1\<rparr> in
        if rlock_count self1 = 0 then
          (Inr (), self1\<lparr>rlock_owner := 0, rlock_lock := PyThread_release_lock (rlock_lock self1)\<rparr>)
        else (Inr (), self1))"

text \<open>
  \<^verbatim>\<open>rlock_acquire_restore\<close> (lines 581-605). The argument is \<open>Inl e\<close> when \<^verbatim>\<open>PyArg_ParseTuple\<close>
  rejects it with exception \<open>e\<close>, and \<open>Inr (count, owner)\<close> otherwise. \<open>w\<close> is the way a
  blocking wait for the mutex ends. The function does not read the identity of its caller.
\<close>

definition rlock_acquire_restore ::
    "bool \<Rightarrow> error + ('w word \<times> PyThread_ident_t) \<Rightarrow> ('w::len) rlockobject
       \<Rightarrow> (error + unit) \<times> 'w rlockobject" where
  "rlock_acquire_restore w args self =
     (case args of
        Inl e \<Rightarrow> (Inl e, self)
      | Inr (count, owner) \<Rightarrow>
          let (r0, m0) = PyThread_acquire_lock w (rlock_lock self) 0;
              (r, m) = (if r0 = 0 then PyThread_acquire_lock w m0 1 else (1, m0));
              self1 = self\<lparr>rlock_lock := m\<rparr>
          in if r = 0 then (Inl (ThreadError, ''couldn't acquire lock''), self1)
             else (Inr (), self1\<lparr>rlock_owner := owner, rlock_count := count\<rparr>))"

text \<open>\<^verbatim>\<open>rlock_release_save\<close> (lines 612-630). The result is the pair built by
  \<^verbatim>\<open>Py_BuildValue\<close>: the count first, the owner second. The function does not read the
  identity of its caller.\<close>

definition rlock_release_save ::
    "('w::len) rlockobject \<Rightarrow> (error + ('w word \<times> PyThread_ident_t)) \<times> 'w rlockobject" where
  "rlock_release_save self =
     (if rlock_count self = 0 then
        (Inl (PyExc_RuntimeError, ''cannot release un-acquired lock''), self)
      else
        (Inr (rlock_count self, rlock_owner self),
         self\<lparr>rlock_count := 0, rlock_owner := 0,
              rlock_lock := PyThread_release_lock (rlock_lock self)\<rparr>))"

section \<open>The stack size of new threads\<close>

text \<open>
  The stack size used for threads created later is part of the interpreter state, read by
  \<^verbatim>\<open>PyThread_get_stacksize\<close> and written by \<^verbatim>\<open>PyThread_set_stacksize\<close>.
\<close>

record threads_config =
  stacksize :: nat

record stack_platform =
  supported :: bool
  min_stacksize :: nat

text \<open>Modelled from the spec: \<^verbatim>\<open>PyThread_set_stacksize\<close> of the portable thread library, which
  is defined outside this module. "0 means platform default; values below a minimum are
  rejected": size 0 selects the default and succeeds (result 0), a size below the minimum of
  the platform is refused (result -1) and the configuration is left as it was, any other
  size is stored; a platform that cannot change the stack size answers -2.\<close>

definition PyThread_set_stacksize :: "stack_platform \<Rightarrow> nat \<Rightarrow> threads_config \<Rightarrow> int \<times> threads_config" where
  "PyThread_set_stacksize plat sz cfg =
     (if \<not> supported plat then (- 2, cfg)
      else if sz = 0 then (0, cfg\<lparr>stacksize := 0\<rparr>)
      else if sz < min_stacksize plat then (- 1, cfg)
      else (0, cfg\<lparr>stacksize := sz\<rparr>))"

text \<open>
  \<^verbatim>\<open>thread_stack_size\<close> (lines 1631-1663). The argument is \<open>Inl e\<close> when \<^verbatim>\<open>PyArg_ParseTuple\<close>
  rejects the call, \<open>Inr None\<close> for \<^verbatim>\<open>stack_size()\<close> (\<^verbatim>\<open>new_size\<close> keeps its initial value 0)
  and \<open>Inr (Some n)\<close> for \<^verbatim>\<open>stack_size(n)\<close>. The message of the second \<^verbatim>\<open>ValueError\<close> is
  given as its format string.
\<close>

definition thread_stack_size ::
    "stack_platform \<Rightarrow> error + int option \<Rightarrow> threads_config \<Rightarrow> (error + int) \<times> threads_config" where
  "thread_stack_size plat args cfg =
     (case args of
        Inl e \<Rightarrow> (Inl e, cfg)
      | Inr a \<Rightarrow>
          let new_size = (case a of None \<Rightarrow> 0 | Some n \<Rightarrow> n) in
          if new_size < 0 then (Inl (PyExc_ValueError, ''size must be 0 or a positive value''), cfg)
          else
            let old_size = stacksize cfg;
                (rc, cfg') = PyThread_set_stacksize plat (nat new_size) cfg
            in if rc = - 1 then (Inl (PyExc_ValueError, ''size not valid: %zd bytes''), cfg')
               else if rc = - 2 then (Inl (ThreadError, ''setting stack size not supported''), cfg')
               else (Inr (int old_size), cfg'))"

text \<open>\<open>raises x r\<close>: the result \<open>r\<close> is an exception of type \<open>x\<close>.\<close>

definition raises :: "PyExc \<Rightarrow> error + 'a \<Rightarrow> bool" where
  "raises x r = (case r of Inl e \<Rightarrow> fst e = x | Inr v \<Rightarrow> False)"

section \<open>Arithmetic of the lock count\<close>

lemma unat_inc_no_wrap: "c \<noteq> (- 1 :: 'a::len word) \<Longrightarrow> unat (c + 1) = unat c + 1"
proof -
  assume ne: "c \<noteq> - 1"
  have "c + 1 \<noteq> 0"
    using ne max_word_wrap [of c] by blast
  then have "1 + c \<noteq> 0"
    by (metis add.commute)
  then have "unat (1 + c) = Suc (unat c)"
    by (rule unatSuc)
  then show ?thesis
    by (metis add.commute Suc_eq_plus1)
qed

lemma unat_max_word_iff: "(c = (- 1 :: 'a::len word)) = (unat c + 1 = 2 ^ LENGTH('a))"
proof
  assume "c = - 1"
  then show "unat c + 1 = 2 ^ LENGTH('a)"
    by (simp add: unsigned_minus_1_eq_mask mask_eq_exp_minus_1)
next
  assume h: "unat c + 1 = 2 ^ LENGTH('a)"
  have "unat c = unat (- 1 :: 'a word)"
    using h by (simp add: unsigned_minus_1_eq_mask mask_eq_exp_minus_1)
  then show "c = - 1" by (simp only: word_unat_eq_iff)
qed

section \<open>Thread handles: join and detach\<close>

text \<open>
  Claim C9. For every thread handle whose joinable flag is false, \<open>join()\<close> fails with
  \<open>ValueError\<close> even when the calling thread is the handle's own thread (\<open>tid = ident self\<close>):
  the joinable check comes first. Conversely, the \<open>ThreadError\<close> of a self-join
  ("Cannot join current thread") is only ever raised on a handle that is still joinable, and
  only to the handle's own thread.
\<close>

theorem join_checks_joinable_first:
  "(\<not> joinable self \<longrightarrow>
      ThreadHandle_join (ident self) ret self =
        (Inl (PyExc_ValueError, ''the thread is not joinable''), self)) \<and>
   (fst (ThreadHandle_join tid ret self) = Inl (ThreadError, ''Cannot join current thread'') \<longrightarrow>
      joinable self \<and> ident self = tid)"
proof (intro conjI impI)
  assume "\<not> joinable self"
  then have "ThreadHandle_join_enter (ident self) self =
               Inl (PyExc_ValueError, ''the thread is not joinable'')"
    by (simp add: ThreadHandle_join_enter_def)
  then show "ThreadHandle_join (ident self) ret self =
               (Inl (PyExc_ValueError, ''the thread is not joinable''), self)"
    by (simp add: ThreadHandle_join_def)
next
  assume raised: "fst (ThreadHandle_join tid ret self) =
                    Inl (ThreadError, ''Cannot join current thread'')"
  show "joinable self"
  proof (rule ccontr)
    assume "\<not> joinable self"
    then have "fst (ThreadHandle_join tid ret self) =
                 Inl (PyExc_ValueError, ''the thread is not joinable'')"
      by (simp add: ThreadHandle_join_def ThreadHandle_join_enter_def)
    with raised show False by simp
  qed
next
  assume raised: "fst (ThreadHandle_join tid ret self) =
                    Inl (ThreadError, ''Cannot join current thread'')"
  show "ident self = tid"
  proof (rule ccontr)
    assume "ident self \<noteq> tid"
    then have "fst (ThreadHandle_join tid ret self) \<noteq>
                 Inl (ThreadError, ''Cannot join current thread'')"
      by (simp add: ThreadHandle_join_def ThreadHandle_join_enter_def)
    with raised show False by simp
  qed
qed

theorem join_checks_joinable_first_witness:
  "ThreadHandle_join 7 0 \<lparr>ident = 7, handle = 1, joinable = False\<rparr> =
     (Inl (PyExc_ValueError, ''the thread is not joinable''), \<lparr>ident = 7, handle = 1, joinable = False\<rparr>) \<and>
   fst (ThreadHandle_join 7 0 \<lparr>ident = 7, handle = 1, joinable = True\<rparr>) =
     Inl (ThreadError, ''Cannot join current thread'')"
  using join_checks_joinable_first [of "\<lparr>ident = 7, handle = 1, joinable = False\<rparr>" 0 7]
  by (simp add: ThreadHandle_join_def ThreadHandle_join_enter_def)

text \<open>
  Claim C2, as stated, says that of two \<open>join()\<close>/\<open>detach()\<close> calls on one handle exactly
  one succeeds. That fails when the OS primitive of the first call reports an error: on a
  joinable handle of thread 1, a \<open>join()\<close> by thread 2 whose \<^verbatim>\<open>PyThread_join_thread\<close> returns 1
  fails with \<open>ThreadError\<close> ("Failed joining thread", lines 169-172) after clearing the flag,
  and the second \<open>join()\<close>, by thread 3, observes \<open>ValueError\<close>: no call succeeds.
\<close>

theorem join_detach_exactly_one_counterexample:
  "ident \<lparr>ident = 1, handle = 5, joinable = True\<rparr> \<noteq> 2 \<and>
   fst (ThreadHandle_join 2 1 \<lparr>ident = 1, handle = 5, joinable = True\<rparr>) =
     Inl (ThreadError, ''Failed joining thread'') \<and>
   fst (ThreadHandle_join 3 0 (snd (ThreadHandle_join 2 1 \<lparr>ident = 1, handle = 5, joinable = True\<rparr>))) =
     Inl (PyExc_ValueError, ''the thread is not joinable'')"
  by (simp add: ThreadHandle_join_def ThreadHandle_join_enter_def)

text \<open>
  Claim C2, amended. \<open>join()\<close> fails with \<open>ValueError\<close> when the handle is not joinable, and
  leaves it as it is. On a joinable handle it fails with \<open>ThreadError\<close> when the caller is the
  handle's own thread, whatever the OS would answer (\<open>ret\<close> is not consulted: the call does
  not block) and without clearing the flag. Otherwise the flag is cleared before the caller
  blocks (\<open>ThreadHandle_join_enter\<close> is the handle during the wait), and the call succeeds
  exactly when the OS primitive returns 0, failing with \<open>ThreadError\<close> otherwise;
  \<open>detach()\<close> on a joinable handle does the same. Any \<open>join()\<close> or \<open>detach()\<close> that meets the
  cleared flag, by any thread \<open>tid'\<close> and whatever the OS would answer, observes
  \<open>ValueError\<close>. So of two calls on a joinable handle the first one wins the flag, and the
  other observes \<open>ValueError\<close>; the winner succeeds if its OS primitive does.
\<close>

theorem join_detach_race:
  "(\<not> joinable self \<longrightarrow>
      ThreadHandle_join tid ret self = (Inl (PyExc_ValueError, ''the thread is not joinable''), self)) \<and>
   (joinable self \<and> ident self = tid \<longrightarrow>
      ThreadHandle_join tid ret self = (Inl (ThreadError, ''Cannot join current thread''), self)) \<and>
   (joinable self \<and> ident self \<noteq> tid \<longrightarrow>
      ThreadHandle_join_enter tid self = Inr (self\<lparr>joinable := False\<rparr>) \<and>
      ThreadHandle_join tid ret self =
        (if ret = 0 then Inr () else Inl (ThreadError, ''Failed joining thread''),
         self\<lparr>joinable := False\<rparr>)) \<and>
   (joinable self \<longrightarrow>
      ThreadHandle_detach ret self =
        (if ret = 0 then Inr () else Inl (ThreadError, ''Failed detaching thread''),
         self\<lparr>joinable := False\<rparr>)) \<and>
   ThreadHandle_join tid' ret' (self\<lparr>joinable := False\<rparr>) =
     (Inl (PyExc_ValueError, ''the thread is not joinable''), self\<lparr>joinable := False\<rparr>) \<and>
   ThreadHandle_detach ret' (self\<lparr>joinable := False\<rparr>) =
     (Inl (PyExc_ValueError, ''the thread is not joinable and thus cannot be detached''),
      self\<lparr>joinable := False\<rparr>)"
proof -
  have not_joinable: "\<And>s t r. \<not> joinable s \<Longrightarrow>
      ThreadHandle_join t r s = (Inl (PyExc_ValueError, ''the thread is not joinable''), s)"
    by (simp add: ThreadHandle_join_def ThreadHandle_join_enter_def)
  have self_join: "joinable self \<and> ident self = tid \<longrightarrow>
      ThreadHandle_join tid ret self = (Inl (ThreadError, ''Cannot join current thread''), self)"
    by (simp add: ThreadHandle_join_def ThreadHandle_join_enter_def)
  have enter: "joinable self \<and> ident self \<noteq> tid \<longrightarrow>
      ThreadHandle_join_enter tid self = Inr (self\<lparr>joinable := False\<rparr>)"
    by (simp add: ThreadHandle_join_enter_def)
  then have join: "joinable self \<and> ident self \<noteq> tid \<longrightarrow>
      ThreadHandle_join tid ret self =
        (if ret = 0 then Inr () else Inl (ThreadError, ''Failed joining thread''),
         self\<lparr>joinable := False\<rparr>)"
    by (simp add: ThreadHandle_join_def)
  have detach: "joinable self \<longrightarrow>
      ThreadHandle_detach ret self =
        (if ret = 0 then Inr () else Inl (ThreadError, ''Failed detaching thread''),
         self\<lparr>joinable := False\<rparr>)"
    by (simp add: ThreadHandle_detach_def)
  have cleared: "\<not> joinable (self\<lparr>joinable := False\<rparr>)"
    by simp
  have loser_join: "ThreadHandle_join tid' ret' (self\<lparr>joinable := False\<rparr>) =
     (Inl (PyExc_ValueError, ''the thread is not joinable''), self\<lparr>joinable := False\<rparr>)"
    using cleared by (rule not_joinable)
  have loser_detach: "ThreadHandle_detach ret' (self\<lparr>joinable := False\<rparr>) =
     (Inl (PyExc_ValueError, ''the thread is not joinable and thus cannot be detached''),
      self\<lparr>joinable := False\<rparr>)"
    by (simp add: ThreadHandle_detach_def)
  from not_joinable [of self tid ret] self_join enter join detach loser_join loser_detach
  show ?thesis by blast
qed

theorem join_detach_race_witness:
  "ThreadHandle_join 2 0 \<lparr>ident = 1, handle = 5, joinable = True\<rparr> =
     (Inr (), \<lparr>ident = 1, handle = 5, joinable = False\<rparr>) \<and>
   ThreadHandle_detach 0 \<lparr>ident = 1, handle = 5, joinable = False\<rparr> =
     (Inl (PyExc_ValueError, ''the thread is not joinable and thus cannot be detached''),
      \<lparr>ident = 1, handle = 5, joinable = False\<rparr>)"
  using join_detach_race [of "\<lparr>ident = 1, handle = 5, joinable = True\<rparr>" 2 0 3 0]
  by simp

section \<open>Lock: release\<close>

text \<open>
  Claim C4. \<open>release()\<close> on a lock whose \<open>locked\<close> flag is false fails with \<open>ThreadError\<close>
  (\<open>RuntimeError\<close>, "release unlocked lock": the spec's state error) and leaves the lock as it
  is. When \<open>locked\<close> is true, \<open>release()\<close> succeeds, clears the flag and releases the OS mutex
  (one release call is added to its history). \<^verbatim>\<open>lock_PyThread_release_lock\<close> does not read the
  identity of its caller and the lock records no owner, so this holds for every calling
  thread: after a successful \<open>acquire()\<close>, by whichever thread, \<open>release()\<close> succeeds.
\<close>

theorem lock_release_unlocked_fails:
  "(\<not> locked self \<longrightarrow>
      lock_PyThread_release_lock self = (Inl (ThreadError, ''release unlocked lock''), self)) \<and>
   (locked self \<longrightarrow>
      fst (lock_PyThread_release_lock self) = Inr () \<and>
      \<not> locked (snd (lock_PyThread_release_lock self)) \<and>
      \<not> held (lock_lock (snd (lock_PyThread_release_lock self))) \<and>
      history (lock_lock (snd (lock_PyThread_release_lock self))) =
        history (lock_lock self) @ [Call_release]) \<and>
   (fst (lock_PyThread_acquire_lock tmax w args self) = Inr True \<longrightarrow>
      fst (lock_PyThread_release_lock (snd (lock_PyThread_acquire_lock tmax w args self))) = Inr ())"
  by (auto simp: lock_PyThread_release_lock_def PyThread_release_lock_def
        lock_PyThread_acquire_lock_def Let_def split: sum.splits prod.splits if_splits)

theorem lock_release_unlocked_fails_witness:
  "lock_PyThread_release_lock \<lparr>lock_lock = \<lparr>held = False, history = []\<rparr>, locked = False\<rparr> =
     (Inl (ThreadError, ''release unlocked lock''),
      \<lparr>lock_lock = \<lparr>held = False, history = []\<rparr>, locked = False\<rparr>) \<and>
   fst (lock_PyThread_release_lock
          \<lparr>lock_lock = \<lparr>held = True, history = [Call_acquire]\<rparr>, locked = True\<rparr>) = Inr ()"
  using lock_release_unlocked_fails
          [of "\<lparr>lock_lock = \<lparr>held = False, history = []\<rparr>, locked = False\<rparr>"]
        lock_release_unlocked_fails
          [of "\<lparr>lock_lock = \<lparr>held = True, history = [Call_acquire]\<rparr>, locked = True\<rparr>"]
  by simp

section \<open>Reentrant lock: acquire, release, restore\<close>

text \<open>
  Claim C5. \<open>release()\<close> by a thread that is not the current owner (the owner differs from
  the caller, or the count is 0) fails with \<open>RuntimeError\<close> and leaves the lock, owner and
  count included, as it is. \<open>release()\<close> by the owner succeeds and decrements the count by
  one (without wrap-around); when the count reaches zero it clears the owner and releases the
  mutex, and when it does not, owner and mutex are left alone.
\<close>

theorem rlock_release_owner_only:
  "((rlock_owner self \<noteq> tid \<or> rlock_count self = 0) \<longrightarrow>
      rlock_release tid self = (Inl (PyExc_RuntimeError, ''cannot release un-acquired lock''), self)) \<and>
   (rlock_owner self = tid \<and> rlock_count self \<noteq> 0 \<longrightarrow>
      fst (rlock_release tid self) = Inr () \<and>
      rlock_count (snd (rlock_release tid self)) = rlock_count self - 1 \<and>
      unat (rlock_count (snd (rlock_release tid self))) + 1 = unat (rlock_count self) \<and>
      (if rlock_count (snd (rlock_release tid self)) = 0
       then rlock_owner (snd (rlock_release tid self)) = 0 \<and>
            \<not> held (rlock_lock (snd (rlock_release tid self))) \<and>
            history (rlock_lock (snd (rlock_release tid self))) =
              history (rlock_lock self) @ [Call_release]
       else rlock_owner (snd (rlock_release tid self)) = rlock_owner self \<and>
            rlock_lock (snd (rlock_release tid self)) = rlock_lock self))"
  using unat_minus_one [of "rlock_count self"]  unat_gt_0 [of "rlock_count self"]
  by (auto simp: rlock_release_def rlock_is_owned_by_def word_greater_zero_iff Let_def
        PyThread_release_lock_def)

theorem rlock_release_owner_only_witness:
  "rlock_release 8 \<lparr>rlock_lock = \<lparr>held = True, history = [Call_acquire]\<rparr>,
                    rlock_owner = 7, rlock_count = (2 :: 64 word)\<rparr> =
     (Inl (PyExc_RuntimeError, ''cannot release un-acquired lock''),
      \<lparr>rlock_lock = \<lparr>held = True, history = [Call_acquire]\<rparr>,
       rlock_owner = 7, rlock_count = 2\<rparr>) \<and>
   fst (rlock_release 7 \<lparr>rlock_lock = \<lparr>held = True, history = [Call_acquire]\<rparr>,
                         rlock_owner = 7, rlock_count = (2 :: 64 word)\<rparr>) = Inr ()"
  using rlock_release_owner_only
          [of "\<lparr>rlock_lock = \<lparr>held = True, history = [Call_acquire]\<rparr>,
                rlock_owner = 7, rlock_count = (2 :: 64 word)\<rparr>" 8]
        rlock_release_owner_only
          [of "\<lparr>rlock_lock = \<lparr>held = True, history = [Call_acquire]\<rparr>,
                rlock_owner = 7, rlock_count = (2 :: 64 word)\<rparr>" 7]
  by simp

text \<open>
  Claim C10. A successful \<open>restore_state(count', owner')\<close> installs the pair verbatim after
  acquiring the mutex: afterwards the count is \<open>count'\<close>, the owner is \<open>owner'\<close> and the mutex
  is held, one acquire call having been made on a free mutex and two (the try and the
  blocking call) on a held one. \<^verbatim>\<open>rlock_acquire_restore\<close> reads neither the identity of its
  caller nor the old owner and count, and validates nothing: the statement holds for every
  pair and every lock, in particular for a lock whose count is 0 and an \<open>owner'\<close> that is not
  the caller. The call succeeds exactly when the mutex is free or the blocking wait ends with
  the mutex acquired.
\<close>

theorem rlock_acquire_restore_installs_pair:
  "(fst (rlock_acquire_restore w (Inr (count', owner')) self) = Inr () \<longrightarrow>
      rlock_count (snd (rlock_acquire_restore w (Inr (count', owner')) self)) = count' \<and>
      rlock_owner (snd (rlock_acquire_restore w (Inr (count', owner')) self)) = owner' \<and>
      held (rlock_lock (snd (rlock_acquire_restore w (Inr (count', owner')) self))) \<and>
      history (rlock_lock (snd (rlock_acquire_restore w (Inr (count', owner')) self))) =
        history (rlock_lock self) @
          (if held (rlock_lock self) then [Call_acquire, Call_acquire] else [Call_acquire])) \<and>
   (fst (rlock_acquire_restore w (Inr (count', owner')) self) = Inr ()) =
     (\<not> held (rlock_lock self) \<or> w)"
proof (cases "held (rlock_lock self)")
  case False
  then have "rlock_acquire_restore w (Inr (count', owner')) self =
      (Inr (), self\<lparr>rlock_lock := \<lparr>held = True, history = history (rlock_lock self) @ [Call_acquire]\<rparr>,
                    rlock_owner := owner', rlock_count := count'\<rparr>)"
    by (simp add: rlock_acquire_restore_def PyThread_acquire_lock_def Let_def)
  with False show ?thesis by simp
next
  case True
  then have "rlock_acquire_restore w (Inr (count', owner')) self =
      (if w then (Inr (), self\<lparr>rlock_lock := \<lparr>held = True,
                       history = history (rlock_lock self) @ [Call_acquire, Call_acquire]\<rparr>,
                    rlock_owner := owner', rlock_count := count'\<rparr>)
       else (Inl (ThreadError, ''couldn't acquire lock''),
             self\<lparr>rlock_lock := \<lparr>held = True,
                       history = history (rlock_lock self) @ [Call_acquire, Call_acquire]\<rparr>\<rparr>))"
    by (simp add: rlock_acquire_restore_def PyThread_acquire_lock_def Let_def)
  with True show ?thesis by simp
qed

theorem rlock_acquire_restore_installs_pair_witness:
  "fst (rlock_acquire_restore False (Inr (3 :: 64 word, 9))
          \<lparr>rlock_lock = \<lparr>held = False, history = []\<rparr>, rlock_owner = 0, rlock_count = 0\<rparr>) = Inr () \<and>
   rlock_count (snd (rlock_acquire_restore False (Inr (3 :: 64 word, 9))
          \<lparr>rlock_lock = \<lparr>held = False, history = []\<rparr>, rlock_owner = 0, rlock_count = 0\<rparr>)) = 3 \<and>
   rlock_owner (snd (rlock_acquire_restore False (Inr (3 :: 64 word, 9))
          \<lparr>rlock_lock = \<lparr>held = False, history = []\<rparr>, rlock_owner = 0, rlock_count = 0\<rparr>)) = 9"
  using rlock_acquire_restore_installs_pair
          [of False "3 :: 64 word" 9
              "\<lparr>rlock_lock = \<lparr>held = False, history = []\<rparr>, rlock_owner = 0, rlock_count = 0\<rparr>"]
  by simp

text \<open>
  Claim C3. Let the arguments of \<open>acquire\<close> be accepted by the parser (as those of
  \<open>acquire()\<close> are). If the calling thread already owns the lock, \<open>acquire\<close> returns true with
  the count incremented by one and the mutex untouched, except when \<open>count + 1\<close> computed
  modulo \<open>2 ^ w\<close> is \<open>\<le> count\<close>, that is when the count is \<open>2 ^ w - 1\<close>: then it fails with
  \<open>OverflowError\<close> and leaves the lock as it is. If the caller does not own the lock, a
  successful \<open>acquire\<close> sets the owner to the calling thread and the count to 1, with the
  mutex held. Such an \<open>acquire\<close> does succeed: it makes one acquire call on the mutex, and
  when the mutex is free, or when the call may wait (\<open>timeout \<noteq> 0\<close>) and the wait ends with
  the mutex acquired, it returns true with owner and count set as said; when the wait is
  interrupted it returns with the pending exception, and otherwise it returns false, owner
  and count being left alone in both cases.
\<close>

theorem rlock_acquire_owned_increments:
  fixes self :: "('w::len) rlockobject"
  assumes "lock_acquire_parse_args tmax args = Inr timeout"
  shows
  "(rlock_is_owned_by self tid \<longrightarrow>
      rlock_acquire tmax w tid args self =
        (if rlock_count self + 1 \<le> rlock_count self
         then (Inl (PyExc_OverflowError, ''Internal lock count overflowed''), self)
         else (Inr True, self\<lparr>rlock_count := rlock_count self + 1\<rparr>)) \<and>
      rlock_lock (snd (rlock_acquire tmax w tid args self)) = rlock_lock self \<and>
      (rlock_count self + 1 \<le> rlock_count self) =
        (unat (rlock_count self) + 1 = 2 ^ LENGTH('w)) \<and>
      (\<not> rlock_count self + 1 \<le> rlock_count self \<longrightarrow>
         unat (rlock_count self + 1) = unat (rlock_count self) + 1)) \<and>
   (\<not> rlock_is_owned_by self tid \<and> fst (rlock_acquire tmax w tid args self) = Inr True \<longrightarrow>
      rlock_owner (snd (rlock_acquire tmax w tid args self)) = tid \<and>
      rlock_count (snd (rlock_acquire tmax w tid args self)) = 1 \<and>
      held (rlock_lock (snd (rlock_acquire tmax w tid args self)))) \<and>
   (\<not> rlock_is_owned_by self tid \<longrightarrow>
      rlock_acquire tmax w tid args self =
        (if \<not> held (rlock_lock self) \<or> (timeout \<noteq> 0 \<and> w = PY_LOCK_ACQUIRED)
         then (Inr True,
               self\<lparr>rlock_lock := \<lparr>held = True,
                                    history = history (rlock_lock self) @ [Call_acquire]\<rparr>,
                    rlock_owner := tid, rlock_count := 1\<rparr>)
         else if timeout \<noteq> 0 \<and> w = PY_LOCK_INTR
         then (Inl (Pending_exception, []),
               self\<lparr>rlock_lock := \<lparr>held = True,
                                    history = history (rlock_lock self) @ [Call_acquire]\<rparr>\<rparr>)
         else (Inr False,
               self\<lparr>rlock_lock := \<lparr>held = True,
                                    history = history (rlock_lock self) @ [Call_acquire]\<rparr>\<rparr>)))"
proof -
  have wrap: "(rlock_count self + 1 \<le> rlock_count self) = (unat (rlock_count self) + 1 = 2 ^ LENGTH('w))"
    by (simp only: inc_less_eq_self_iff_eq unat_max_word_iff)
  have inc: "\<not> rlock_count self + 1 \<le> rlock_count self \<longrightarrow>
         unat (rlock_count self + 1) = unat (rlock_count self) + 1"
    by (simp only: inc_less_eq_self_iff_eq) (simp add: unat_inc_no_wrap)
  have owned: "rlock_is_owned_by self tid \<longrightarrow>
      rlock_acquire tmax w tid args self =
        (if rlock_count self + 1 \<le> rlock_count self
         then (Inl (PyExc_OverflowError, ''Internal lock count overflowed''), self)
         else (Inr True, self\<lparr>rlock_count := rlock_count self + 1\<rparr>))"
    using assms by (simp add: rlock_acquire_def Let_def)
  have untouched: "rlock_is_owned_by self tid \<longrightarrow>
      rlock_lock (snd (rlock_acquire tmax w tid args self)) = rlock_lock self"
    using assms by (simp add: rlock_acquire_def Let_def)
  have timed: "\<And>v. acquire_timed v (rlock_lock self) timeout =
      (if \<not> held (rlock_lock self) then PY_LOCK_ACQUIRED
       else if timeout = 0 then PY_LOCK_FAILURE else v,
       \<lparr>held = True, history = history (rlock_lock self) @ [Call_acquire]\<rparr>)"
    by (cases "rlock_lock self")
       (simp add: acquire_timed_def PyThread_acquire_lock_timed_with_retries_def Let_def)
  have branch: "\<not> rlock_is_owned_by self tid \<longrightarrow>
      rlock_acquire tmax w tid args self =
        (if \<not> held (rlock_lock self) \<or> (timeout \<noteq> 0 \<and> w = PY_LOCK_ACQUIRED)
         then (Inr True,
               self\<lparr>rlock_lock := \<lparr>held = True,
                                    history = history (rlock_lock self) @ [Call_acquire]\<rparr>,
                    rlock_owner := tid, rlock_count := 1\<rparr>)
         else if timeout \<noteq> 0 \<and> w = PY_LOCK_INTR
         then (Inl (Pending_exception, []),
               self\<lparr>rlock_lock := \<lparr>held = True,
                                    history = history (rlock_lock self) @ [Call_acquire]\<rparr>\<rparr>)
         else (Inr False,
               self\<lparr>rlock_lock := \<lparr>held = True,
                                    history = history (rlock_lock self) @ [Call_acquire]\<rparr>\<rparr>))"
    using assms by (cases w) (simp_all add: rlock_acquire_def timed Let_def)
  have other: "\<not> rlock_is_owned_by self tid \<and> fst (rlock_acquire tmax w tid args self) = Inr True \<longrightarrow>
      rlock_owner (snd (rlock_acquire tmax w tid args self)) = tid \<and>
      rlock_count (snd (rlock_acquire tmax w tid args self)) = 1 \<and>
      held (rlock_lock (snd (rlock_acquire tmax w tid args self)))"
    using branch by (auto split: if_splits)
  from wrap inc owned untouched other branch show ?thesis by blast
qed

theorem rlock_acquire_owned_increments_witness:
  "lock_acquire_parse_args 9223372036854775 (Acquire_args True None) = Inr (- 1000000000) \<and>
   rlock_is_owned_by \<lparr>rlock_lock = \<lparr>held = True, history = [Call_acquire]\<rparr>,
                      rlock_owner = 7, rlock_count = (2 :: 64 word)\<rparr> 7 \<and>
   rlock_acquire 9223372036854775 PY_LOCK_FAILURE 7 (Acquire_args True None)
       \<lparr>rlock_lock = \<lparr>held = True, history = [Call_acquire]\<rparr>,
        rlock_owner = 7, rlock_count = (2 :: 64 word)\<rparr> =
     (Inr True, \<lparr>rlock_lock = \<lparr>held = True, history = [Call_acquire]\<rparr>,
                 rlock_owner = 7, rlock_count = 3\<rparr>) \<and>
   \<not> rlock_is_owned_by \<lparr>rlock_lock = \<lparr>held = False, history = []\<rparr>,
                        rlock_owner = 0, rlock_count = (0 :: 64 word)\<rparr> 7 \<and>
   rlock_acquire 9223372036854775 PY_LOCK_FAILURE 7 (Acquire_args True None)
       \<lparr>rlock_lock = \<lparr>held = False, history = []\<rparr>,
        rlock_owner = 0, rlock_count = (0 :: 64 word)\<rparr> =
     (Inr True, \<lparr>rlock_lock = \<lparr>held = True, history = [Call_acquire]\<rparr>,
                 rlock_owner = 7, rlock_count = 1\<rparr>) \<and>
   \<not> rlock_is_owned_by \<lparr>rlock_lock = \<lparr>held = True, history = [Call_acquire]\<rparr>,
                        rlock_owner = 7, rlock_count = (2 :: 64 word)\<rparr> 8 \<and>
   rlock_acquire 9223372036854775 PY_LOCK_FAILURE 8 (Acquire_args True None)
       \<lparr>rlock_lock = \<lparr>held = True, history = [Call_acquire]\<rparr>,
        rlock_owner = 7, rlock_count = (2 :: 64 word)\<rparr> =
     (Inr False, \<lparr>rlock_lock = \<lparr>held = True, history = [Call_acquire, Call_acquire]\<rparr>,
                  rlock_owner = 7, rlock_count = 2\<rparr>)"
proof -
  have parse: "lock_acquire_parse_args 9223372036854775 (Acquire_args True None) = Inr (- 1000000000)"
    by (simp add: lock_acquire_parse_args_def PyTime_FromSeconds_def)
  have owned: "rlock_is_owned_by \<lparr>rlock_lock = \<lparr>held = True, history = [Call_acquire]\<rparr>,
                      rlock_owner = 7, rlock_count = (2 :: 64 word)\<rparr> 7"
    by (simp add: rlock_is_owned_by_def)
  have free: "\<not> rlock_is_owned_by \<lparr>rlock_lock = \<lparr>held = False, history = []\<rparr>,
                        rlock_owner = 0, rlock_count = (0 :: 64 word)\<rparr> 7"
    by (simp add: rlock_is_owned_by_def)
  have foreign: "\<not> rlock_is_owned_by \<lparr>rlock_lock = \<lparr>held = True, history = [Call_acquire]\<rparr>,
                        rlock_owner = 7, rlock_count = (2 :: 64 word)\<rparr> 8"
    by (simp add: rlock_is_owned_by_def)
  show ?thesis
    using parse owned free foreign
      rlock_acquire_owned_increments
        [OF parse, of "\<lparr>rlock_lock = \<lparr>held = True, history = [Call_acquire]\<rparr>,
                      rlock_owner = 7, rlock_count = (2 :: 64 word)\<rparr>" 7 PY_LOCK_FAILURE]
      rlock_acquire_owned_increments
        [OF parse, of "\<lparr>rlock_lock = \<lparr>held = False, history = []\<rparr>,
                      rlock_owner = 0, rlock_count = (0 :: 64 word)\<rparr>" 7 PY_LOCK_FAILURE]
      rlock_acquire_owned_increments
        [OF parse, of "\<lparr>rlock_lock = \<lparr>held = True, history = [Call_acquire]\<rparr>,
                      rlock_owner = 7, rlock_count = (2 :: 64 word)\<rparr>" 8 PY_LOCK_FAILURE]
    by simp
qed

text \<open>
  Claim C1. \<open>save_state()\<close> on a lock whose count is 0 fails with \<open>RuntimeError\<close> and
  leaves the lock as it is. On a lock with a non-zero count whose mutex is held (held by the
  thread \<open>rlock_owner self\<close>), \<open>save_state()\<close> returns the pair (count, owner), zeroes both
  and releases the mutex; \<open>restore_state\<close> with the captured pair then succeeds and puts the
  owner, the count and the held status of the mutex back to what they were. The same holds
  when, between the two calls, another thread \<open>y\<close> acquires the lock (successfully, with
  owner \<open>y\<close> and count 1) and releases it again. Neither function reads the identity of its
  caller.
\<close>

theorem release_save_acquire_restore_roundtrip:
  fixes self :: "('w::len) rlockobject"
  shows
  "(rlock_count self = 0 \<longrightarrow>
      rlock_release_save self =
        (Inl (PyExc_RuntimeError, ''cannot release un-acquired lock''), self)) \<and>
   (rlock_count self \<noteq> 0 \<and> held (rlock_lock self) \<and>
    lock_acquire_parse_args tmax args = Inr timeout \<longrightarrow>
      (let (r1, s1) = rlock_release_save self;
           (r2, s2) = rlock_acquire_restore w r1 s1;
           (r3, s3) = rlock_acquire tmax wy y args s1;
           (r4, s4) = rlock_release y s3;
           (r5, s5) = rlock_acquire_restore w r1 s4
       in r1 = Inr (rlock_count self, rlock_owner self) \<and>
          rlock_count s1 = 0 \<and> rlock_owner s1 = 0 \<and> \<not> held (rlock_lock s1) \<and>
          r2 = Inr () \<and>
          rlock_owner s2 = rlock_owner self \<and> rlock_count s2 = rlock_count self \<and>
          held (rlock_lock s2) = held (rlock_lock self) \<and>
          r3 = Inr True \<and> rlock_owner s3 = y \<and> rlock_count s3 = 1 \<and> held (rlock_lock s3) \<and>
          r4 = Inr () \<and> rlock_count s4 = 0 \<and> \<not> held (rlock_lock s4) \<and>
          r5 = Inr () \<and>
          rlock_owner s5 = rlock_owner self \<and> rlock_count s5 = rlock_count self \<and>
          held (rlock_lock s5) = held (rlock_lock self)))"
  by (auto simp: rlock_release_save_def rlock_acquire_restore_def rlock_acquire_def
        rlock_release_def rlock_is_owned_by_def Let_def PyThread_release_lock_def
        PyThread_acquire_lock_def acquire_timed_def PyThread_acquire_lock_timed_with_retries_def)

theorem release_save_acquire_restore_roundtrip_witness:
  "rlock_count \<lparr>rlock_lock = \<lparr>held = True, history = [Call_acquire]\<rparr>,
                rlock_owner = 7, rlock_count = (3 :: 64 word)\<rparr> \<noteq> 0 \<and>
   lock_acquire_parse_args 9223372036854775 (Acquire_args True None) = Inr (- 1000000000) \<and>
   fst (rlock_release_save \<lparr>rlock_lock = \<lparr>held = True, history = [Call_acquire]\<rparr>,
                            rlock_owner = 7, rlock_count = (3 :: 64 word)\<rparr>) = Inr (3, 7) \<and>
   rlock_count (snd (rlock_acquire_restore False (Inr (3, 7))
      (snd (rlock_release 8
        (snd (rlock_acquire 9223372036854775 PY_LOCK_FAILURE 8 (Acquire_args True None)
          (snd (rlock_release_save \<lparr>rlock_lock = \<lparr>held = True, history = [Call_acquire]\<rparr>,
                                    rlock_owner = 7, rlock_count = (3 :: 64 word)\<rparr>)))))))) = 3"
proof -
  have parse: "lock_acquire_parse_args 9223372036854775 (Acquire_args True None) = Inr (- 1000000000)"
    by (simp add: lock_acquire_parse_args_def PyTime_FromSeconds_def)
  show ?thesis
    using parse
      release_save_acquire_restore_roundtrip
        [of "\<lparr>rlock_lock = \<lparr>held = True, history = [Call_acquire]\<rparr>,
              rlock_owner = 7, rlock_count = (3 :: 64 word)\<rparr>"
            9223372036854775 "Acquire_args True None" "- 1000000000" False PY_LOCK_FAILURE 8]
    by (simp add: Let_def split: prod.splits)
qed

section \<open>Fork recovery\<close>

lemma AfterFork_walk_heap:
  "fst (AfterFork_walk current ns (hp, state)) n =
     (if n \<in> set ns \<and> ident (hp n) \<noteq> current then (hp n)\<lparr>joinable := False\<rparr> else hp n)"
proof (induction ns arbitrary: hp state)
  case Nil
  then show ?case by simp
next
  case (Cons node rest)
  show ?case
  proof (cases "ident (hp node) = current")
    case True
    then show ?thesis using Cons.IH [of hp state] by auto
  next
    case False
    let ?hp = "hp(node := (hp node)\<lparr>joinable := False\<rparr>)"
    let ?st = "state\<lparr>handles := llist_remove node (handles state)\<rparr>"
    have "fst (AfterFork_walk current (node # rest) (hp, state)) n =
          fst (AfterFork_walk current rest (?hp, ?st)) n"
      using False by simp
    also have "\<dots> = (if n \<in> set rest \<and> ident (?hp n) \<noteq> current
                      then (?hp n)\<lparr>joinable := False\<rparr> else ?hp n)"
      by (rule Cons.IH)
    also have "\<dots> = (if n \<in> set (node # rest) \<and> ident (hp n) \<noteq> current
                      then (hp n)\<lparr>joinable := False\<rparr> else hp n)"
      using False by auto
    finally show ?thesis .
  qed
qed

lemma AfterFork_walk_handles:
  "distinct (handles state) \<Longrightarrow>
   handles (snd (AfterFork_walk current ns (hp, state))) =
     filter (\<lambda>n. \<not> (n \<in> set ns \<and> ident (hp n) \<noteq> current)) (handles state)"
proof (induction ns arbitrary: hp state)
  case Nil
  then show ?case by simp
next
  case (Cons node rest)
  show ?case
  proof (cases "ident (hp node) = current")
    case True
    have "filter (\<lambda>n. \<not> (n \<in> set rest \<and> ident (hp n) \<noteq> current)) (handles state) =
          filter (\<lambda>n. \<not> (n \<in> set (node # rest) \<and> ident (hp n) \<noteq> current)) (handles state)"
      using True by (intro filter_cong) auto
    then show ?thesis using True Cons.IH [OF Cons.prems, of hp] by simp
  next
    case False
    let ?hp = "hp(node := (hp node)\<lparr>joinable := False\<rparr>)"
    let ?st = "state\<lparr>handles := llist_remove node (handles state)\<rparr>"
    have d: "distinct (handles ?st)"
      using Cons.prems by (simp add: llist_remove_def)
    have rm: "handles ?st = filter (\<lambda>n. n \<noteq> node) (handles state)"
    proof -
      have "filter ((\<noteq>) node) (handles state) = filter (\<lambda>n. n \<noteq> node) (handles state)"
        by (rule filter_cong) auto
      then show ?thesis
        using Cons.prems
        by (simp add: llist_remove_def distinct_remove1_removeAll removeAll_filter_not_eq)
    qed
    have "handles (snd (AfterFork_walk current (node # rest) (hp, state))) =
          handles (snd (AfterFork_walk current rest (?hp, ?st)))"
      using False by simp
    also have "\<dots> =
          filter (\<lambda>n. \<not> (n \<in> set rest \<and> ident (?hp n) \<noteq> current)) (handles ?st)"
      by (rule Cons.IH [OF d])
    also have "\<dots> = filter (\<lambda>n. n \<noteq> node \<and> \<not> (n \<in> set rest \<and> ident (?hp n) \<noteq> current)) (handles state)"
      by (simp only: rm filter_filter)
    also have "\<dots> = filter (\<lambda>n. \<not> (n \<in> set (node # rest) \<and> ident (hp n) \<noteq> current)) (handles state)"
      using False by (intro filter_cong) auto
    finally show ?thesis .
  qed
qed

text \<open>
  Claim C6. After \<^verbatim>\<open>_PyThread_AfterFork\<close> has walked the registry, every registered handle
  whose identity differs from that of the surviving thread (\<open>current\<close>) has its joinable flag
  cleared and is no longer in the registry, while a registered handle whose identity is
  \<open>current\<close> is unchanged and still registered; the registry is what it was, restricted to
  the handles of the surviving thread.
\<close>

theorem after_fork_clears_other_threads:
  assumes "distinct (handles state)"
  shows
  "(\<forall>n \<in> set (handles state).
      (ident (hp n) \<noteq> current \<longrightarrow>
         \<not> joinable (fst (PyThread_AfterFork current (hp, state)) n) \<and>
         n \<notin> set (handles (snd (PyThread_AfterFork current (hp, state))))) \<and>
      (ident (hp n) = current \<longrightarrow>
         fst (PyThread_AfterFork current (hp, state)) n = hp n \<and>
         n \<in> set (handles (snd (PyThread_AfterFork current (hp, state)))))) \<and>
   handles (snd (PyThread_AfterFork current (hp, state))) =
     filter (\<lambda>n. ident (hp n) = current) (handles state)"
proof -
  have h: "handles (snd (PyThread_AfterFork current (hp, state))) =
            filter (\<lambda>n. ident (hp n) = current) (handles state)"
    unfolding PyThread_AfterFork_def snd_conv
    by (simp only: AfterFork_walk_handles [OF assms]) (intro filter_cong, auto)
  have hp: "\<And>n. fst (PyThread_AfterFork current (hp, state)) n =
              (if n \<in> set (handles state) \<and> ident (hp n) \<noteq> current
               then (hp n)\<lparr>joinable := False\<rparr> else hp n)"
    unfolding PyThread_AfterFork_def snd_conv by (rule AfterFork_walk_heap)
  show ?thesis
    by (simp add: h hp)
qed

theorem after_fork_clears_other_threads_witness:
  "distinct (handles \<lparr>handles = [0, 1, 2]\<rparr>) \<and>
   \<not> joinable (fst (PyThread_AfterFork 7
        (\<lambda>a. \<lparr>ident = (if a = 1 then 7 else 9), handle = 0, joinable = True\<rparr>, \<lparr>handles = [0, 1, 2]\<rparr>)) 0) \<and>
   joinable (fst (PyThread_AfterFork 7
        (\<lambda>a. \<lparr>ident = (if a = 1 then 7 else 9), handle = 0, joinable = True\<rparr>, \<lparr>handles = [0, 1, 2]\<rparr>)) 1) \<and>
   handles (snd (PyThread_AfterFork 7
        (\<lambda>a. \<lparr>ident = (if a = 1 then 7 else 9), handle = 0, joinable = True\<rparr>, \<lparr>handles = [0, 1, 2]\<rparr>))) = [1]"
proof -
  have d: "distinct (handles \<lparr>handles = [0, 1, 2 :: nat]\<rparr>)" by simp
  show ?thesis
    using d after_fork_clears_other_threads [OF d, of
        "\<lambda>a. \<lparr>ident = (if a = 1 then 7 else 9), handle = 0, joinable = True\<rparr>" 7]
    by simp
qed

section \<open>The arguments of acquire\<close>

text \<open>
  Claim C7, as stated, says that every finite negative timeout, and every finite timeout
  given together with \<open>blocking=false\<close>, is refused with \<open>ValueError\<close>. The timeout of -1
  second is finite and negative, but it is the value the parser takes for "unset"
  (\<^verbatim>\<open>unset_timeout\<close>, line 257; the documented signature is
  \<^verbatim>\<open>acquire(blocking=True, timeout=-1)\<close>), and both tests of the parser let it through
  (\<^verbatim>\<open>*timeout != unset_timeout\<close>, lines 265 and 270): \<open>acquire(True, -1)\<close> and
  \<open>acquire(False, -1)\<close> on a free lock both take the lock and return true.
\<close>

theorem acquire_minus_one_timeout_counterexample:
  "PyTime_FromSeconds (- 1) < 0 \<and>
   lock_PyThread_acquire_lock 9223372036854775 PY_LOCK_FAILURE
       (Acquire_args True (Some (Converts (PyTime_FromSeconds (- 1)))))
       \<lparr>lock_lock = \<lparr>held = False, history = []\<rparr>, locked = False\<rparr> =
     (Inr True, \<lparr>lock_lock = \<lparr>held = True, history = [Call_acquire]\<rparr>, locked = True\<rparr>) \<and>
   lock_PyThread_acquire_lock 9223372036854775 PY_LOCK_FAILURE
       (Acquire_args False (Some (Converts (PyTime_FromSeconds (- 1)))))
       \<lparr>lock_lock = \<lparr>held = False, history = []\<rparr>, locked = False\<rparr> =
     (Inr True, \<lparr>lock_lock = \<lparr>held = True, history = [Call_acquire]\<rparr>, locked = True\<rparr>)"
  by (simp add: lock_PyThread_acquire_lock_def lock_acquire_parse_args_def PyTime_FromSeconds_def
        PyTime_AsMicroseconds_def acquire_timed_def PyThread_acquire_lock_timed_with_retries_def)

text \<open>
  Claim C7, amended. Let the timeout argument convert to a \<^verbatim>\<open>PyTime_t\<close> other than that of
  -1 second. If it is negative, or if \<open>blocking\<close> is false, the parser fails with
  \<open>ValueError\<close>, and so do \<open>Lock.acquire\<close> and \<open>ReentrantLock.acquire\<close>, before any attempt to
  take the lock: the lock object, the history of its mutex included, is unchanged.
\<close>

theorem acquire_rejects_bad_timeout:
  assumes "t \<noteq> PyTime_FromSeconds (- 1)" and "t < 0 \<or> \<not> blocking"
  shows
  "lock_acquire_parse_args tmax (Acquire_args blocking (Some (Converts t))) =
     Inl (PyExc_ValueError,
          if blocking then ''timeout value must be a non-negative number''
          else ''can't specify a timeout for a non-blocking call'') \<and>
   raises PyExc_ValueError (fst (lock_PyThread_acquire_lock tmax w (Acquire_args blocking (Some (Converts t))) lk)) \<and>
   snd (lock_PyThread_acquire_lock tmax w (Acquire_args blocking (Some (Converts t))) lk) = lk \<and>
   raises PyExc_ValueError (fst (rlock_acquire tmax w tid (Acquire_args blocking (Some (Converts t))) rl)) \<and>
   snd (rlock_acquire tmax w tid (Acquire_args blocking (Some (Converts t))) rl) = rl"
proof -
  have parse: "lock_acquire_parse_args tmax (Acquire_args blocking (Some (Converts t))) =
     Inl (PyExc_ValueError,
          if blocking then ''timeout value must be a non-negative number''
          else ''can't specify a timeout for a non-blocking call'')"
    using assms by (auto simp: lock_acquire_parse_args_def Let_def)
  show ?thesis
    unfolding lock_PyThread_acquire_lock_def rlock_acquire_def parse
    by (simp add: raises_def)
qed

theorem acquire_rejects_bad_timeout_witness:
  "(- 5 :: int) \<noteq> PyTime_FromSeconds (- 1) \<and>
   lock_acquire_parse_args 9223372036854775 (Acquire_args True (Some (Converts (- 5)))) =
     Inl (PyExc_ValueError, ''timeout value must be a non-negative number'') \<and>
   snd (lock_PyThread_acquire_lock 9223372036854775 PY_LOCK_ACQUIRED (Acquire_args True (Some (Converts (- 5))))
          \<lparr>lock_lock = \<lparr>held = False, history = []\<rparr>, locked = False\<rparr>) =
     \<lparr>lock_lock = \<lparr>held = False, history = []\<rparr>, locked = False\<rparr>"
proof -
  have ne: "(- 5 :: int) \<noteq> PyTime_FromSeconds (- 1)"
    by (simp add: PyTime_FromSeconds_def)
  have neg: "(- 5 :: int) < 0 \<or> \<not> True" by simp
  show ?thesis
    using ne acquire_rejects_bad_timeout [OF ne neg, of 9223372036854775 PY_LOCK_ACQUIRED
        "\<lparr>lock_lock = \<lparr>held = False, history = []\<rparr>, locked = False\<rparr>" 1
        "\<lparr>rlock_lock = \<lparr>held = False, history = []\<rparr>, rlock_owner = 0,
          rlock_count = (0 :: 64 word)\<rparr>"]
    by simp
qed

section \<open>The stack size\<close>

text \<open>
  Claim C8, as stated, says that \<open>stack_size(bytes)\<close> fails with \<open>ValueError\<close> for every
  \<open>bytes \<le> 0\<close> and leaves the configuration alone. The test of line 1641 is \<open>new_size < 0\<close>:
  size 0 is passed on to \<^verbatim>\<open>PyThread_set_stacksize\<close>, for which it selects the default of the
  platform (the docstring: "must be 0 (use platform or configured default) or a positive
  integer value of at least 32,768"). With 65536 bytes configured, \<open>stack_size(0)\<close> returns
  65536 and sets the configuration to 0.
\<close>

theorem stack_size_zero_counterexample:
  "(0 :: int) \<le> 0 \<and>
   thread_stack_size \<lparr>supported = True, min_stacksize = 32768\<rparr> (Inr (Some 0)) \<lparr>stacksize = 65536\<rparr> =
     (Inr 65536, \<lparr>stacksize = 0\<rparr>)"
  by (simp add: thread_stack_size_def PyThread_set_stacksize_def)

text \<open>
  Claim C8, amended. For every call \<open>stack_size(bytes)\<close> with a negative argument
  (\<open>bytes < 0\<close>), the call fails with \<open>ValueError\<close> and the configured stack size is
  unmodified.
\<close>

theorem stack_size_negative_rejected:
  "n < 0 \<Longrightarrow>
   thread_stack_size plat (Inr (Some n)) cfg =
     (Inl (PyExc_ValueError, ''size must be 0 or a positive value''), cfg)"
proof -
  assume neg: "n < 0"
  have "thread_stack_size plat (Inr (Some n)) cfg =
          (let new_size = n in
           if new_size < 0 then (Inl (PyExc_ValueError, ''size must be 0 or a positive value''), cfg)
           else
             let old_size = stacksize cfg;
                 (rc, cfg') = PyThread_set_stacksize plat (nat new_size) cfg
             in if rc = - 1 then (Inl (PyExc_ValueError, ''size not valid: %zd bytes''), cfg')
                else if rc = - 2 then (Inl (ThreadError, ''setting stack size not supported''), cfg')
                else (Inr (int old_size), cfg'))"
    by (simp add: thread_stack_size_def)
  with neg show ?thesis by simp
qed

theorem stack_size_negative_rejected_witness:
  "(- 1 :: int) < 0 \<and>
   thread_stack_size \<lparr>supported = True, min_stacksize = 32768\<rparr> (Inr (Some (- 1))) \<lparr>stacksize = 65536\<rparr> =
     (Inl (PyExc_ValueError, ''size must be 0 or a positive value''), \<lparr>stacksize = 65536\<rparr>)"
  using stack_size_negative_rejected
          [of "- 1" "\<lparr>supported = True, min_stacksize = 32768\<rparr>" "\<lparr>stacksize = 65536\<rparr>"]
  by simp

end
